theory Spec2Isabelle
  imports Main
begin

section \<open>The output writer (\<^verbatim>\<open>core/output_writer.py\<close>)\<close>

text \<open>
  The writer owns two flags and a writable \<^verbatim>\<open>file\<close>. The file is any object with a
  \<^verbatim>\<open>write\<close> method; it is modelled by the list of the strings handed to
  \<^verbatim>\<open>file.write\<close>, oldest first, so that every call on the file is visible. The field
  is called \<open>file_writes\<close> because \<open>file\<close> is a reserved word of Isabelle.
\<close>

definition linebreak :: char where
  "linebreak = CHR 0x0A"

definition BREAK_LINE :: string where
  "BREAK_LINE = replicate 80 (CHR ''='')"

record OutputWriter =
  last_chunk_break_line :: bool
  last_write_ended_with_linebreak :: bool
  file_writes :: "string list"

text \<open>\<^verbatim>\<open>string.startswith('\n')\<close> and \<^verbatim>\<open>string.endswith('\n')\<close>.\<close>

fun startswith_linebreak :: "string \<Rightarrow> bool" where
  "startswith_linebreak [] = False"
| "startswith_linebreak (c # cs) = (c = linebreak)"

definition endswith_linebreak :: "string \<Rightarrow> bool" where
  "endswith_linebreak s = (s \<noteq> [] \<and> last s = linebreak)"

text \<open>\<^verbatim>\<open>OutputWriter.__new__\<close>, with the file still untouched.\<close>

definition OutputWriter_new :: OutputWriter where
  "OutputWriter_new =
     \<lparr>last_chunk_break_line = False, last_write_ended_with_linebreak = False, file_writes = []\<rparr>"

text \<open>
  Each method returns its Python return value together with the updated writer. The method
  \<^verbatim>\<open>write\<close> is called \<open>OutputWriter_write\<close> here (\<open>write\<close> is a reserved word too).
\<close>

definition write_break_line :: "OutputWriter \<Rightarrow> bool \<times> OutputWriter" where
  "write_break_line w =
     (if last_chunk_break_line w then (False, w)
      else
        let f1 = (if \<not> last_write_ended_with_linebreak w then file_writes w @ [[linebreak]] else file_writes w);
            f2 = f1 @ [BREAK_LINE]
        in (True, w\<lparr>file_writes := f2,
                     last_write_ended_with_linebreak := False,
                     last_chunk_break_line := True\<rparr>))"

definition OutputWriter_write :: "string \<Rightarrow> OutputWriter \<Rightarrow> bool \<times> OutputWriter" where
  "OutputWriter_write string w =
     (if string = [] then (False, w)
      else
        let f1 = (if \<not> last_write_ended_with_linebreak w \<and> \<not> startswith_linebreak string
                  then file_writes w @ [[linebreak]] else file_writes w);
            f2 = f1 @ [string]
        in (True, w\<lparr>file_writes := f2,
                     last_write_ended_with_linebreak := endswith_linebreak string,
                     last_chunk_break_line := False\<rparr>))"

text \<open>The text that has reached the file so far.\<close>

definition written :: "OutputWriter \<Rightarrow> string" where
  "written w = concat (file_writes w)"

text \<open>
  What two writer states differ by: the chunks handed to the file in between, and how many
  of them are separator lines.
\<close>

definition emitted :: "OutputWriter \<Rightarrow> OutputWriter \<Rightarrow> string list" where
  "emitted w w' = drop (length (file_writes w)) (file_writes w')"

definition separators_emitted :: "OutputWriter \<Rightarrow> OutputWriter \<Rightarrow> nat" where
  "separators_emitted w w' = length (filter (\<lambda>chunk. chunk = BREAK_LINE) (emitted w w'))"

text \<open>A sequence of method calls on a freshly created writer.\<close>

datatype writer_call = CallWrite string | CallWriteBreakLine

fun call :: "OutputWriter \<Rightarrow> writer_call \<Rightarrow> OutputWriter" where
  "call w (CallWrite s) = snd (OutputWriter_write s w)"
| "call w CallWriteBreakLine = snd (write_break_line w)"

definition after_calls :: "writer_call list \<Rightarrow> OutputWriter" where
  "after_calls cs = foldl call OutputWriter_new cs"

text \<open>The flag \<^verbatim>\<open>_last_write_ended_with_linebreak\<close> tells the truth about the file.\<close>

definition flag_sound :: "OutputWriter \<Rightarrow> bool" where
  "flag_sound w = (last_write_ended_with_linebreak w = endswith_linebreak (written w))"

section \<open>The default event formatter (\<^verbatim>\<open>core/event_handling/default.py\<close>)\<close>

subsection \<open>What the formatter is handed\<close>

text \<open>
  The formatter reads its events' payloads through accessor methods only. The classes
  behind them are not part of the sources at hand, so each payload is a record of what
  the accessors return: \<open>failed_test_count\<close> stands for \<^verbatim>\<open>get_failed_test_count()\<close>,
  \<open>failed_results\<close> for the items of \<^verbatim>\<open>iter_failed_results()\<close>, and so on. Nothing ties the
  counters to the buffers here. Entries of the file tree are values of a type \<open>'e\<close>,
  compared the way the Python set \<^verbatim>\<open>rendered_entries\<close> compares them; load failures are
  values of a type \<open>'l\<close> and modifier parameters of a type \<open>'m\<close>.
\<close>

record 'e TestFile =
  entry :: 'e
  is_loaded_with_failure :: bool

record ('e, 'm) Result =
  case_name :: string
  case_test_file :: "'e TestFile option"
  case_is_last :: bool
  is_last :: bool
  is_skipped :: bool
  is_conflicted :: bool
  is_informal :: bool
  is_passed :: bool
  is_failed :: bool
  modifier_parameters :: 'm

record ('e, 'm, 'l) Context =
  registered_file_count :: nat
  file_load_failures :: "'l list"
  failed_results :: "('e, 'm) Result list"
  informal_results :: "('e, 'm) Result list"
  failed_test_count :: nat
  skipped_test_count :: nat
  passed_test_count :: nat

datatype ('e, 'm, 'l) event =
    FileRegistrationDoneEvent "('e, 'm, 'l) Context"
  | FileLoadDoneEvent "'e TestFile"
  | TestDoneEvent "('e, 'm) Result"
  | FileTestingDoneEvent "'e TestFile"
  | TestingEndEvent "('e, 'm, 'l) Context"

subsection \<open>Helpers of the formatter that live in other modules\<close>

text \<open>
  The colours are opaque tokens. \<^verbatim>\<open>style_text\<close>, the entry methods and
  \<^verbatim>\<open>build_result_modifier_parameters\<close> are parameters of the model: whatever they compute, the
  formatter only passes their results on.
\<close>

datatype color = COLOR_FAIL | COLOR_PASS | COLOR_SKIP | COLOR_UNKNOWN

record ('e, 'm) helpers =
  style_text :: "string \<Rightarrow> color \<Rightarrow> string"
  get_name :: "'e \<Rightarrow> string"
  iter_parents :: "'e \<Rightarrow> 'e list"
  render_into :: "'e \<Rightarrow> string list \<Rightarrow> string option \<Rightarrow> string list"
  render_custom_sub_directory_into :: "'e \<Rightarrow> string list \<Rightarrow> string \<Rightarrow> bool \<Rightarrow> string list"
  build_result_modifier_parameters :: "'m \<Rightarrow> string"

text \<open>
  The output writer of the formatter offers \<^verbatim>\<open>write_line\<close> and \<^verbatim>\<open>end_line\<close> besides
  \<^verbatim>\<open>write\<close> and \<^verbatim>\<open>write_break_line\<close>; the three \<^verbatim>\<open>write_...\<close> helpers of
  \<^verbatim>\<open>rendering_helpers.writers\<close> write through it as well. The writer is modelled by the
  sequence of calls it receives, oldest first, a helper call standing for whatever that
  helper writes. Each call is taken to return.
\<close>

datatype ('r, 'l) output_call =
    WriteLine string
  | WriteBreakLine
  | Write string
  | EndLine
  | WriteLoadFailure 'l
  | WriteResultFailing 'r
  | WriteResultInformal 'r

text \<open>Python's \<^verbatim>\<open>f'{n}'\<close> for a count \<open>n\<close>: its decimal digits.\<close>

fun decimal :: "nat \<Rightarrow> string" where
  "decimal n =
     (if n < 10 then [''0123456789'' ! n]
      else decimal (n div 10) @ [''0123456789'' ! (n mod 10)])"

declare decimal.simps [simp del]

subsection \<open>The formatter\<close>

text \<open>
  Besides its two attributes the record keeps \<open>render_into_calls\<close>, the entries whose
  \<^verbatim>\<open>render_into\<close> hook has been called, one item per call, oldest first. The source has
  no such attribute; it is there to count the calls.
\<close>

record ('e, 'm, 'l) DefaultEventFormatter =
  rendered_entries :: "'e set"
  output_writer :: "(('e, 'm) Result, 'l) output_call list"
  render_into_calls :: "'e list"

definition DefaultEventFormatter_new :: "('e, 'm, 'l) DefaultEventFormatter" where
  "DefaultEventFormatter_new =
     \<lparr>rendered_entries = {}, output_writer = [], render_into_calls = []\<rparr>"

definition to_writer ::
  "(('e, 'm) Result, 'l) output_call \<Rightarrow> ('e, 'm, 'l) DefaultEventFormatter
     \<Rightarrow> ('e, 'm, 'l) DefaultEventFormatter" where
  "to_writer c self = self\<lparr>output_writer := output_writer self @ [c]\<rparr>"

definition file_registration_done ::
  "('e, 'm, 'l) Context \<Rightarrow> ('e, 'm, 'l) DefaultEventFormatter
     \<Rightarrow> ('e, 'm, 'l) DefaultEventFormatter" where
  "file_registration_done context self =
     to_writer WriteBreakLine
       (to_writer (WriteLine (''Collected '' @ decimal (registered_file_count context)
                                @ '' test file(s).'')) self)"

text \<open>
  One round of the loop over \<^verbatim>\<open>entry.iter_parents()\<close>, and the loop. The state of the loop
  is the list \<^verbatim>\<open>into\<close> and the formatter.
\<close>

definition render_parent ::
  "('e, 'm) helpers \<Rightarrow> string list \<times> ('e, 'm, 'l) DefaultEventFormatter \<Rightarrow> 'e
     \<Rightarrow> string list \<times> ('e, 'm, 'l) DefaultEventFormatter" where
  "render_parent H st sub_entry =
     (case st of (into, self) \<Rightarrow>
        if sub_entry \<in> rendered_entries self then (into, self)
        else (render_into H sub_entry into None,
              self\<lparr>rendered_entries := insert sub_entry (rendered_entries self),
                    render_into_calls := render_into_calls self @ [sub_entry]\<rparr>))"

definition maybe_render_test_file_into ::
  "('e, 'm) helpers \<Rightarrow> string list \<Rightarrow> 'e \<Rightarrow> string option
     \<Rightarrow> ('e, 'm, 'l) DefaultEventFormatter
     \<Rightarrow> string list \<times> ('e, 'm, 'l) DefaultEventFormatter" where
  "maybe_render_test_file_into H into entry' name self =
     (if entry' \<notin> rendered_entries self then
        (case foldl (render_parent H) (into, self) (iter_parents H entry') of
           (into1, self1) \<Rightarrow>
             (render_into H entry' into1 name,
              self1\<lparr>rendered_entries := insert entry' (rendered_entries self1),
                     render_into_calls := render_into_calls self1 @ [entry']\<rparr>))
      else (into, self))"

definition file_load_done ::
  "('e, 'm) helpers \<Rightarrow> 'e TestFile \<Rightarrow> ('e, 'm, 'l) DefaultEventFormatter
     \<Rightarrow> ('e, 'm, 'l) DefaultEventFormatter" where
  "file_load_done H file' self =
     (if is_loaded_with_failure file' then
        (case maybe_render_test_file_into H [] (entry file')
                (Some (style_text H (get_name H (entry file')) COLOR_FAIL)) self of
           (message_parts, self1) \<Rightarrow> to_writer (WriteLine (concat message_parts)) self1)
      else self)"

definition keyword_and_foreground :: "('e, 'm) Result \<Rightarrow> string \<times> color" where
  "keyword_and_foreground result =
     (if is_skipped result then (''S'', COLOR_SKIP)
      else if is_conflicted result then (''C'', COLOR_FAIL)
      else if is_informal result then (''I'', COLOR_PASS)
      else if is_passed result then (''P'', COLOR_PASS)
      else if is_failed result then (''F'', COLOR_FAIL)
      else (''?'', COLOR_UNKNOWN))"

definition test_done ::
  "('e, 'm) helpers \<Rightarrow> ('e, 'm) Result \<Rightarrow> ('e, 'm, 'l) DefaultEventFormatter
     \<Rightarrow> ('e, 'm, 'l) DefaultEventFormatter" where
  "test_done H result self =
     (case case_test_file result of
        None \<Rightarrow> self
      | Some test_file \<Rightarrow>
          (case maybe_render_test_file_into H [] (entry test_file) None self of
             (message_parts, self1) \<Rightarrow>
               (case keyword_and_foreground result of
                  (keyword, foreground) \<Rightarrow>
                    let result_modifiers =
                          build_result_modifier_parameters H (modifier_parameters result);
                        message_parts2 =
                          render_custom_sub_directory_into H (entry test_file) message_parts
                            (style_text H (keyword @ '' '' @ case_name result @ result_modifiers)
                               foreground)
                            (is_last result \<and> case_is_last result)
                    in to_writer (WriteLine (concat message_parts2)) self1)))"

definition file_testing_done ::
  "('e, 'm) helpers \<Rightarrow> 'e TestFile \<Rightarrow> ('e, 'm, 'l) DefaultEventFormatter
     \<Rightarrow> ('e, 'm, 'l) DefaultEventFormatter" where
  "file_testing_done H file' self =
     (case maybe_render_test_file_into H [] (entry file') None self of
        (message_parts, self1) \<Rightarrow>
          if message_parts \<noteq> [] then to_writer (WriteLine (concat message_parts)) self1
          else self1)"

definition testing_end ::
  "('e, 'm) helpers \<Rightarrow> ('e, 'm, 'l) Context \<Rightarrow> ('e, 'm, 'l) DefaultEventFormatter
     \<Rightarrow> ('e, 'm, 'l) DefaultEventFormatter" where
  "testing_end H context self =
     (let self1 = to_writer WriteBreakLine self;
          load_failures = file_load_failures context;
          self2 = foldl (\<lambda>s load_failure. to_writer (WriteLoadFailure load_failure) s)
                    self1 load_failures;
          self3 = foldl (\<lambda>s result. to_writer (WriteResultFailing result) s)
                    self2 (failed_results context);
          failed_count = failed_test_count context;
          failed_message_part = decimal failed_count @ '' failed'';
          (failed_message_part, self4) =
            (if failed_count \<noteq> 0 then (style_text H failed_message_part COLOR_FAIL, self3)
             else (failed_message_part,
                   foldl (\<lambda>s result. to_writer (WriteResultInformal result) s)
                     self3 (informal_results context)));
          skipped_count = skipped_test_count context;
          skipped_message_part = decimal skipped_count @ '' skipped'';
          skipped_message_part =
            (if skipped_count \<noteq> 0 then style_text H skipped_message_part COLOR_SKIP
             else skipped_message_part);
          passed_count = passed_test_count context;
          passed_message_part = decimal passed_count @ '' passed'';
          passed_message_part =
            (if passed_count \<noteq> 0 then style_text H passed_message_part COLOR_PASS
             else passed_message_part);
          self5 = to_writer (Write (failed_message_part @ '' | '' @ skipped_message_part
                                      @ '' | '' @ passed_message_part)) self4;
          self6 = (if load_failures \<noteq> []
                   then to_writer (Write (style_text H ('' | '' @ decimal (length load_failures)
                                                          @ '' files failed to load'')
                                            COLOR_FAIL)) self5
                   else self5)
      in to_writer EndLine self6)"

text \<open>
  \<^verbatim>\<open>create_default_event_handler_manager\<close> registers the five handlers of one formatter;
  an event goes to the handler of its kind.
\<close>

fun handle ::
  "('e, 'm) helpers \<Rightarrow> ('e, 'm, 'l) DefaultEventFormatter \<Rightarrow> ('e, 'm, 'l) event
     \<Rightarrow> ('e, 'm, 'l) DefaultEventFormatter" where
  "handle H self (FileRegistrationDoneEvent context) = file_registration_done context self"
| "handle H self (FileLoadDoneEvent file') = file_load_done H file' self"
| "handle H self (TestDoneEvent result) = test_done H result self"
| "handle H self (FileTestingDoneEvent file') = file_testing_done H file' self"
| "handle H self (TestingEndEvent context) = testing_end H context self"

definition after_events ::
  "('e, 'm) helpers \<Rightarrow> ('e, 'm, 'l) event list \<Rightarrow> ('e, 'm, 'l) DefaultEventFormatter" where
  "after_events H events = foldl (handle H) DefaultEventFormatter_new events"

text \<open>The calls that reached the output writer between two states of the formatter.\<close>

definition calls_since ::
  "('e, 'm, 'l) DefaultEventFormatter \<Rightarrow> ('e, 'm, 'l) DefaultEventFormatter
     \<Rightarrow> (('e, 'm) Result, 'l) output_call list" where
  "calls_since self self' = drop (length (output_writer self)) (output_writer self')"

subsection \<open>Reading the calls on the output writer\<close>

text \<open>
  \<open>message_part\<close> is one of the three parts of the summary as \<^verbatim>\<open>testing_end\<close> builds it:
  the count and its label, passed through \<^verbatim>\<open>style_text\<close> when the count is not zero.
  \<open>written_texts\<close> picks the arguments of the \<^verbatim>\<open>write\<close> calls out of a sequence of calls,
  \<open>informal_written\<close> the results handed to \<^verbatim>\<open>write_result_informal\<close>. \<open>render_inv\<close> says
  that the calls of \<^verbatim>\<open>render_into\<close> so far went to distinct entries, which are the rendered
  entries.
\<close>

definition message_part :: "('e, 'm) helpers \<Rightarrow> nat \<Rightarrow> string \<Rightarrow> color \<Rightarrow> string" where
  "message_part H n label colour =
     (if n \<noteq> 0 then style_text H (decimal n @ label) colour else decimal n @ label)"

fun written_texts :: "('r, 'l) output_call list \<Rightarrow> string list" where
  "written_texts [] = []"
| "written_texts (Write s # cs) = s # written_texts cs"
| "written_texts (c # cs) = written_texts cs"

fun informal_written :: "('r, 'l) output_call list \<Rightarrow> 'r list" where
  "informal_written [] = []"
| "informal_written (WriteResultInformal r # cs) = r # informal_written cs"
| "informal_written (c # cs) = informal_written cs"

definition render_inv :: "('e, 'm, 'l) DefaultEventFormatter \<Rightarrow> bool" where
  "render_inv self =
     (distinct (render_into_calls self) \<and> set (render_into_calls self) = rendered_entries self)"

section \<open>Conditions (\<^verbatim>\<open>assertions/assertion_base.py\<close>, \<^verbatim>\<open>core/assertions\<close>)\<close>

subsection \<open>The base class\<close>

text \<open>
  Modelled from the spec: the module \<^verbatim>\<open>assertion_states\<close> that \<^verbatim>\<open>assertion_base.py\<close>
  imports as \<^verbatim>\<open>CONDITION_STATES\<close> is not among the sources. The spec gives the states:
  ``ConditionState: enumeration {NONE, SUCCEEDED, FAILED}''.
\<close>

datatype ConditionState = NONE | SUCCEEDED | FAILED

record AssertionBase =
  state :: ConditionState

text \<open>\<^verbatim>\<open>AssertionBase.__new__\<close>.\<close>

definition AssertionBase_new :: AssertionBase where
  "AssertionBase_new = \<lparr>state = NONE\<rparr>"

subsection \<open>Python values\<close>

text \<open>
  The built-in classes and values that the assertions below are applied to. \<open>mro\<close> lists a
  class and its ancestors as Python does; \<open>issubclass\<close> is Python's built-in on classes.
  An object lives at an address of a heap: two operands are the same object when their
  addresses are the same, and they are equal when the heap holds equal values there.
\<close>

datatype pytype = T_object | T_type | T_int | T_bool | T_str

datatype pyvalue = PyType pytype | PyInt int | PyBool bool | PyStr string

fun mro :: "pytype \<Rightarrow> pytype list" where
  "mro T_object = [T_object]"
| "mro T_type = [T_type, T_object]"
| "mro T_int = [T_int, T_object]"
| "mro T_bool = [T_bool, T_int, T_object]"
| "mro T_str = [T_str, T_object]"

definition issubclass :: "pytype \<Rightarrow> pytype \<Rightarrow> bool" where
  "issubclass c base = (base \<in> set (mro c))"

type_synonym address = nat

type_synonym heap = "address \<Rightarrow> pyvalue option"

definition same_object :: "address \<Rightarrow> address \<Rightarrow> bool" where
  "same_object a b = (a = b)"

definition equal_values :: "heap \<Rightarrow> address \<Rightarrow> address \<Rightarrow> bool" where
  "equal_values h a b = (h a \<noteq> None \<and> h a = h b)"

datatype pyerror = TypeError | ValueError

subsection \<open>The identity assertion (\<^verbatim>\<open>assertion_identical.py\<close>)\<close>

text \<open>
  The attributes are those of the class's docstring; the operands are references to
  objects. \<^verbatim>\<open>invoke_condition\<close> is \<^verbatim>\<open>self.value_1 is self.value_2\<close>.
\<close>

record AssertionConditionalBase = AssertionBase +
  exception :: "pyerror option"

record AssertionIdentical = AssertionConditionalBase +
  value_1 :: address
  value_2 :: address

definition invoke_condition :: "AssertionIdentical \<Rightarrow> bool" where
  "invoke_condition self = same_object (value_1 self) (value_2 self)"

subsection \<open>Evaluation\<close>

text \<open>
  Modelled from the spec: \<^verbatim>\<open>assertion_conditional_base.py\<close>, which evaluates a condition,
  is not among the sources. The spec (4.1): ``\<^verbatim>\<open>evaluate()\<close> invokes the condition's predicate
  against its owned operand(s) exactly once, transitions \<^verbatim>\<open>state\<close> from NONE to SUCCEEDED or
  FAILED, and returns whether the condition was satisfied. [...] If the predicate itself
  throws while evaluating, the thrown error is captured into \<^verbatim>\<open>captured_error\<close> and the condition
  is classified FAILED -- except for the usage-error case, which is never captured.''
  \<open>predicate_outcome\<close> is what invoking the predicate gave; \<open>evaluate\<close> is what
  \<^verbatim>\<open>evaluate()\<close> does on a condition in state NONE, where the assertion call applies it:
  \<open>Inl\<close> is an error that propagates to the caller, \<open>Inr\<close> the condition after the
  transition with the value returned. What \<^verbatim>\<open>evaluate()\<close> does on a condition that is
  SUCCEEDED or FAILED already is left open by the spec (9: ``unclear whether re-invoking
  an already-terminal condition's \<^verbatim>\<open>evaluate()\<close> is permitted''); nothing below applies
  \<open>evaluate\<close> to one or says anything about it.
\<close>

datatype predicate_outcome = Satisfied | NotSatisfied | Threw pyerror | UsageError pyerror

fun evaluate ::
  "predicate_outcome \<Rightarrow> AssertionConditionalBase
     \<Rightarrow> pyerror + AssertionConditionalBase \<times> bool" where
  "evaluate Satisfied c = Inr (c\<lparr>state := SUCCEEDED\<rparr>, True)"
| "evaluate NotSatisfied c = Inr (c\<lparr>state := FAILED\<rparr>, False)"
| "evaluate (Threw e) c = Inr (c\<lparr>state := FAILED, exception := Some e\<rparr>, False)"
| "evaluate (UsageError e) c = Inl e"

text \<open>
  Modelled from the spec: \<^verbatim>\<open>AssertionConditionalBase.__new__\<close> is not among the sources.
  A condition is ``created when a test body invokes an assertion call''; the assertion
  call creates it in state NONE, with no captured error, and evaluates it.
\<close>

definition AssertionConditionalBase_new :: AssertionConditionalBase where
  "AssertionConditionalBase_new = \<lparr>state = state AssertionBase_new, exception = None\<rparr>"

definition assertion_call ::
  "predicate_outcome \<Rightarrow> pyerror + AssertionConditionalBase \<times> bool" where
  "assertion_call outcome = evaluate outcome AssertionConditionalBase_new"


subsection \<open>The subtype assertion\<close>

text \<open>
  Modelled from the spec: \<^verbatim>\<open>assertion_subtype.py\<close> is not among the sources, only its tests
  are. The spec (4.1): ``Subtype condition: two operands, \<^verbatim>\<open>checked\<close> and \<^verbatim>\<open>reference\<close>.
  Satisfied iff \<^verbatim>\<open>checked\<close> is a type/class value that is a subtype of \<^verbatim>\<open>reference\<close>. If
  \<^verbatim>\<open>reference\<close> is not itself a type, this is a usage error [...]. If \<^verbatim>\<open>checked\<close> is not a
  type, the subtype relation is simply false.'' The usage error is a \<^verbatim>\<open>TypeError\<close>, as the
  test \<^verbatim>\<open>test_assert_subtype_incorrect_type\<close> expects.
\<close>

fun subtype_predicate :: "pyvalue \<Rightarrow> pyvalue \<Rightarrow> predicate_outcome" where
  "subtype_predicate (PyType checked) (PyType reference) =
     (if issubclass checked reference then Satisfied else NotSatisfied)"
| "subtype_predicate checked (PyType reference) = NotSatisfied"
| "subtype_predicate checked reference = UsageError TypeError"

definition assert_subtype ::
  "pyvalue \<Rightarrow> pyvalue \<Rightarrow> pyerror + AssertionConditionalBase \<times> bool" where
  "assert_subtype checked reference = assertion_call (subtype_predicate checked reference)"

subsection \<open>Test units and modifiers\<close>

text \<open>
  Modelled from the spec: the runner and the modifiers \<^verbatim>\<open>revert\<close> and \<^verbatim>\<open>raising\<close> are not
  among the sources. A body that makes one assertion call ends in one of three ways. The
  spec (4.2, 4.3, 7): without a modifier the unit is PASSED when its body completes with
  no failure and FAILED otherwise (``any usage error terminates the unit immediately as
  FAILED''); Revert flips this; Raising(kind) gives PASSED iff the body raises an error
  of the kind, and FAILED when it raises another kind, raises nothing, or an assertion
  of the body fails.
\<close>

datatype body_outcome = Completed | AssertionFailed | Raised pyerror

fun body_of :: "pyerror + AssertionConditionalBase \<times> bool \<Rightarrow> body_outcome" where
  "body_of (Inl e) = Raised e"
| "body_of (Inr (c, satisfied)) = (if satisfied then Completed else AssertionFailed)"

datatype classification =
  UNIT_PASSED | UNIT_FAILED | UNIT_SKIPPED | UNIT_INFORMAL | UNIT_CONFLICTED | UNIT_UNKNOWN

datatype modifier = Revert | Raising pyerror

fun classify :: "modifier option \<Rightarrow> body_outcome \<Rightarrow> classification" where
  "classify None Completed = UNIT_PASSED"
| "classify None outcome = UNIT_FAILED"
| "classify (Some Revert) Completed = UNIT_FAILED"
| "classify (Some Revert) outcome = UNIT_PASSED"
| "classify (Some (Raising kind)) (Raised e) = (if e = kind then UNIT_PASSED else UNIT_FAILED)"
| "classify (Some (Raising kind)) outcome = UNIT_FAILED"

text \<open>The four units of \<^verbatim>\<open>core/assertions/tests/test_assertion_subtype.py\<close>.\<close>

definition test_assert_subtype :: classification where
  "test_assert_subtype =
     classify None (body_of (assert_subtype (PyType T_bool) (PyType T_int)))"

definition test_assert_subtype_reverted :: classification where
  "test_assert_subtype_reverted =
     classify (Some Revert) (body_of (assert_subtype (PyType T_bool) (PyType T_str)))"

definition test_assert_subtype_incorrect_type :: classification where
  "test_assert_subtype_incorrect_type =
     classify (Some (Raising TypeError)) (body_of (assert_subtype (PyType T_bool) (PyInt 1)))"

definition test_assert_subtype_incorrect_checked :: classification where
  "test_assert_subtype_incorrect_checked =
     classify (Some Revert) (body_of (assert_subtype (PyInt 1) (PyType T_int)))"

section \<open>Sample data\<close>

text \<open>
  A small file tree (entry 2 below entry 1 below entry 0), helpers that do no styling and
  helpers whose \<^verbatim>\<open>style_text\<close> marks its text, a run with 3 passed, 1 failed and 1 skipped
  test, and two objects that are equal without being the same object.
\<close>

definition plain_helpers :: "(nat, unit) helpers" where
  "plain_helpers =
     \<lparr>style_text = (\<lambda>text colour. text),
      get_name = (\<lambda>e. ''entry''),
      iter_parents = (\<lambda>e. if e = 2 then [0, 1] else if e = 1 then [0] else []),
      render_into = (\<lambda>e into name. into @ [case name of None \<Rightarrow> ''entry'' | Some n \<Rightarrow> n]),
      render_custom_sub_directory_into = (\<lambda>e into text last. into @ [text]),
      build_result_modifier_parameters = (\<lambda>m. [])\<rparr>"

definition marking_helpers :: "(nat, unit) helpers" where
  "marking_helpers = plain_helpers\<lparr>style_text := (\<lambda>text colour. ''<'' @ text @ ''>'')\<rparr>"

definition sample_result :: "(nat, unit) Result" where
  "sample_result =
     \<lparr>case_name = ''test_a'', case_test_file = Some \<lparr>entry = 2, is_loaded_with_failure = False\<rparr>,
      case_is_last = True, is_last = True, is_skipped = False, is_conflicted = False,
      is_informal = False, is_passed = False, is_failed = True, modifier_parameters = ()\<rparr>"

definition sample_informal :: "(nat, unit) Result" where
  "sample_informal = sample_result\<lparr>case_name := ''test_b'', is_informal := True, is_failed := False\<rparr>"

definition sample_context :: "(nat, unit, unit) Context" where
  "sample_context =
     \<lparr>registered_file_count = 1, file_load_failures = [], failed_results = [sample_result],
      informal_results = [], failed_test_count = 1, skipped_test_count = 1,
      passed_test_count = 3\<rparr>"

definition sample_events :: "(nat, unit, unit) event list" where
  "sample_events =
     [FileRegistrationDoneEvent sample_context,
      FileLoadDoneEvent \<lparr>entry = 1, is_loaded_with_failure = True\<rparr>,
      TestDoneEvent sample_result,
      FileTestingDoneEvent \<lparr>entry = 2, is_loaded_with_failure = False\<rparr>,
      TestingEndEvent sample_context]"

definition two_equal_objects :: heap where
  "two_equal_objects = (\<lambda>a. if a = 0 \<or> a = 1 then Some (PyStr ''ab'') else None)"

definition sample_identical :: "address \<Rightarrow> address \<Rightarrow> AssertionIdentical" where
  "sample_identical a b = \<lparr>state = NONE, exception = None, value_1 = a, value_2 = b\<rparr>"

section \<open>Properties of the output writer\<close>

text \<open>
  Claim C10. In every writer state, \<^verbatim>\<open>write\<close> with the empty string returns False and
  leaves the writer as it was: nothing reaches the file and both flags keep their values.
  With a non-empty string \<^verbatim>\<open>write\<close> returns True.
\<close>

theorem write_empty_noop:
  "OutputWriter_write [] w = (False, w) \<and> (s \<noteq> [] \<longrightarrow> fst (OutputWriter_write s w) = True)"
  by (simp add: OutputWriter_write_def Let_def)

theorem write_empty_noop_witness:
  "OutputWriter_write [] OutputWriter_new = (False, OutputWriter_new)
   \<and> ''a'' \<noteq> [] \<and> fst (OutputWriter_write ''a'' OutputWriter_new) = True"
  using write_empty_noop [of OutputWriter_new "''a''"] by simp

text \<open>
  Claim C7, as amended. In every writer state the second of two consecutive
  \<^verbatim>\<open>write_break_line\<close> calls returns False and changes nothing: no chunk reaches the file and
  the flags stay. The two calls together emit one separator when the chunk written before
  them was not a break line, and none when it was.
\<close>

lemma linebreak_not_BREAK_LINE: "[linebreak] \<noteq> BREAK_LINE"
proof
  assume "[linebreak] = BREAK_LINE"
  then have "length [linebreak] = length BREAK_LINE" by simp
  then show False by (simp add: BREAK_LINE_def)
qed

theorem write_break_line_twice:
  "fst (write_break_line (snd (write_break_line w))) = False
   \<and> snd (write_break_line (snd (write_break_line w))) = snd (write_break_line w)
   \<and> separators_emitted w (snd (write_break_line (snd (write_break_line w))))
       = (if last_chunk_break_line w then 0 else 1)"
  using linebreak_not_BREAK_LINE
  by (simp add: write_break_line_def Let_def separators_emitted_def emitted_def)

theorem write_break_line_twice_witness:
  "fst (write_break_line (snd (write_break_line OutputWriter_new))) = False
   \<and> snd (write_break_line (snd (write_break_line OutputWriter_new)))
       = snd (write_break_line OutputWriter_new)
   \<and> separators_emitted OutputWriter_new
       (snd (write_break_line (snd (write_break_line OutputWriter_new)))) = 1"
proof -
  have fresh: "\<not> last_chunk_break_line OutputWriter_new"
    by (simp add: OutputWriter_new_def)
  have "(if last_chunk_break_line OutputWriter_new then 0 else 1) = (1::nat)"
    using fresh by simp
  with write_break_line_twice [of OutputWriter_new] show ?thesis
    by metis
qed

text \<open>
  The claim as stated fails in a state whose last chunk already is a break line: after one
  \<^verbatim>\<open>write_break_line\<close> on a new writer, two further consecutive calls emit no separator at all.
\<close>

theorem write_break_line_exactly_one_counterexample:
  "separators_emitted (snd (write_break_line OutputWriter_new))
     (snd (write_break_line (snd (write_break_line (snd (write_break_line OutputWriter_new))))))
   = 0"
  by (simp add: write_break_line_def Let_def separators_emitted_def emitted_def
      OutputWriter_new_def)

text \<open>The linebreak flag is sound in every state that calls can reach.\<close>

lemma BREAK_LINE_no_linebreak_end: "\<not> endswith_linebreak (xs @ BREAK_LINE)"
  by (simp add: endswith_linebreak_def BREAK_LINE_def linebreak_def)

lemma endswith_linebreak_append:
  "s \<noteq> [] \<Longrightarrow> endswith_linebreak (xs @ s) = endswith_linebreak s"
  by (simp add: endswith_linebreak_def)

lemma flag_sound_new: "flag_sound OutputWriter_new"
  by (simp add: flag_sound_def OutputWriter_new_def written_def endswith_linebreak_def)

lemma flag_sound_write: "flag_sound w \<Longrightarrow> flag_sound (snd (OutputWriter_write s w))"
  by (simp add: flag_sound_def OutputWriter_write_def Let_def written_def
      endswith_linebreak_append)

lemma flag_sound_write_break_line: "flag_sound w \<Longrightarrow> flag_sound (snd (write_break_line w))"
  using BREAK_LINE_no_linebreak_end
  by (simp add: flag_sound_def write_break_line_def Let_def written_def)

lemma flag_sound_call: "flag_sound w \<Longrightarrow> flag_sound (call w c)"
  by (cases c) (simp_all add: flag_sound_write flag_sound_write_break_line)

lemma flag_sound_foldl: "flag_sound w \<Longrightarrow> flag_sound (foldl call w cs)"
  by (induction cs arbitrary: w) (simp_all add: flag_sound_call)

lemma flag_sound_after_calls: "flag_sound (after_calls cs)"
  by (simp add: after_calls_def flag_sound_foldl flag_sound_new)

text \<open>
  Claim C8, as amended. After any sequence of calls on a new writer, \<^verbatim>\<open>write\<close> with a
  non-empty chunk appends the chunk to the text of the file, preceded by one line break
  exactly when that text does not end with a line break and the chunk does not begin with
  one. So the writer never puts a line break next to one that is already there, and every
  chunk begins on a line of its own: two chunks are never joined on one line.
\<close>

theorem write_starts_fresh_line:
  assumes "s \<noteq> []"
  shows "written (snd (OutputWriter_write s (after_calls cs))) =
           written (after_calls cs)
           @ (if endswith_linebreak (written (after_calls cs)) \<or> startswith_linebreak s
              then [] else [linebreak])
           @ s"
  using assms flag_sound_after_calls [of cs]
  by (simp add: flag_sound_def OutputWriter_write_def Let_def written_def)

theorem write_starts_fresh_line_witness:
  "''b'' \<noteq> []
   \<and> written (snd (OutputWriter_write ''b'' (after_calls [CallWrite ''a'']))) =
       written (after_calls [CallWrite ''a'']) @ [linebreak] @ ''b''"
  using write_starts_fresh_line [of "''b''" "[CallWrite ''a'']"]
  by (simp add: after_calls_def OutputWriter_write_def Let_def written_def OutputWriter_new_def
      endswith_linebreak_def linebreak_def)

text \<open>
  The claim as stated fails for two partial writes in a row: \<^verbatim>\<open>write('a')\<close> and then
  \<^verbatim>\<open>write('b')\<close> on a new writer leave the two chunks on different lines.
\<close>

theorem write_joined_counterexample:
  "written (snd (OutputWriter_write ''b'' (snd (OutputWriter_write ''a'' OutputWriter_new))))
     = [linebreak] @ ''a'' @ [linebreak] @ ''b''
   \<and> written (snd (OutputWriter_write ''b'' (snd (OutputWriter_write ''a'' OutputWriter_new))))
     \<noteq> written (snd (OutputWriter_write ''a'' OutputWriter_new)) @ ''b''"
  by (simp add: OutputWriter_write_def Let_def written_def OutputWriter_new_def
      endswith_linebreak_def linebreak_def)

section \<open>Properties of the default event formatter\<close>

text \<open>What \<^verbatim>\<open>testing_end\<close> sends to the output writer, call by call.\<close>

lemma output_writer_to_writer [simp]:
  "output_writer (to_writer c self) = output_writer self @ [c]"
  by (simp add: to_writer_def)

lemma output_writer_foldl_to_writer:
  "output_writer (foldl (\<lambda>s x. to_writer (f x) s) self xs) = output_writer self @ map f xs"
  by (induction xs arbitrary: self) simp_all

lemma testing_end_calls:
  "calls_since self (testing_end H ctx self) =
     [WriteBreakLine]
     @ map WriteLoadFailure (file_load_failures ctx)
     @ map WriteResultFailing (failed_results ctx)
     @ (if failed_test_count ctx = 0 then map WriteResultInformal (informal_results ctx) else [])
     @ [Write (message_part H (failed_test_count ctx) '' failed'' COLOR_FAIL @ '' | ''
               @ message_part H (skipped_test_count ctx) '' skipped'' COLOR_SKIP @ '' | ''
               @ message_part H (passed_test_count ctx) '' passed'' COLOR_PASS)]
     @ (if file_load_failures ctx \<noteq> []
        then [Write (style_text H ('' | '' @ decimal (length (file_load_failures ctx))
                                    @ '' files failed to load'') COLOR_FAIL)]
        else [])
     @ [EndLine]"
  by (simp add: calls_since_def testing_end_def Let_def message_part_def
      output_writer_foldl_to_writer)

lemma written_texts_append: "written_texts (xs @ ys) = written_texts xs @ written_texts ys"
  by (induction xs rule: written_texts.induct) simp_all

lemma informal_written_append:
  "informal_written (xs @ ys) = informal_written xs @ informal_written ys"
  by (induction xs rule: informal_written.induct) simp_all

lemma written_texts_load_failures: "written_texts (map WriteLoadFailure ls) = []"
  by (induction ls) simp_all

lemma written_texts_failing: "written_texts (map WriteResultFailing rs) = []"
  by (induction rs) simp_all

lemma written_texts_informal: "written_texts (map WriteResultInformal rs) = []"
  by (induction rs) simp_all

lemmas written_texts_helpers =
  written_texts_load_failures written_texts_failing written_texts_informal

lemma informal_written_load_failures: "informal_written (map WriteLoadFailure ls) = []"
  by (induction ls) simp_all

lemma informal_written_failing: "informal_written (map WriteResultFailing rs) = []"
  by (induction rs) simp_all

lemma informal_written_informal: "informal_written (map WriteResultInformal rs) = rs"
  by (induction rs) simp_all

lemmas informal_written_helpers =
  informal_written_load_failures informal_written_failing informal_written_informal

lemma decimal_digit: "n < 10 \<Longrightarrow> decimal n = [''0123456789'' ! n]"
  by (simp add: decimal.simps)

text \<open>
  Claim C2, as amended. Whatever the context holds, \<^verbatim>\<open>testing_end\<close> calls \<^verbatim>\<open>write\<close> once
  with the summary: the three parts ``n failed'', ``n skipped'' and ``n passed'' joined by
  \<^verbatim>\<open>' | '\<close>, each part passed through \<^verbatim>\<open>style_text\<close> with its colour when its count is not
  zero and plain when it is. A second \<^verbatim>\<open>write\<close>, with the styled load-failure suffix,
  follows exactly when the list of load failures is not empty, and \<^verbatim>\<open>end_line\<close> is the last
  call. There is no other \<^verbatim>\<open>write\<close> call.
\<close>

theorem testing_end_summary:
  "written_texts (calls_since self (testing_end H ctx self)) =
     (message_part H (failed_test_count ctx) '' failed'' COLOR_FAIL @ '' | ''
      @ message_part H (skipped_test_count ctx) '' skipped'' COLOR_SKIP @ '' | ''
      @ message_part H (passed_test_count ctx) '' passed'' COLOR_PASS)
     # (if file_load_failures ctx \<noteq> []
        then [style_text H ('' | '' @ decimal (length (file_load_failures ctx))
                             @ '' files failed to load'') COLOR_FAIL]
        else [])
   \<and> last (calls_since self (testing_end H ctx self)) = EndLine"
  by (simp add: testing_end_calls written_texts_append written_texts_helpers)

text \<open>
  With a \<^verbatim>\<open>style_text\<close> that returns its text unchanged, the run with 3 passed, 1 failed and
  1 skipped test gives the summary of the claim's example.
\<close>

theorem testing_end_summary_witness:
  "written_texts (calls_since DefaultEventFormatter_new
      (testing_end plain_helpers sample_context DefaultEventFormatter_new))
     = [''1 failed | 1 skipped | 3 passed'']
   \<and> written_texts (calls_since DefaultEventFormatter_new
      (testing_end plain_helpers (sample_context\<lparr>file_load_failures := [(), ()]\<rparr>)
         DefaultEventFormatter_new))
     = [''1 failed | 1 skipped | 3 passed'', '' | 2 files failed to load'']"
  using testing_end_summary [of DefaultEventFormatter_new plain_helpers sample_context]
    testing_end_summary [of DefaultEventFormatter_new plain_helpers
      "sample_context\<lparr>file_load_failures := [(), ()]\<rparr>"]
  by (simp add: message_part_def plain_helpers_def sample_context_def decimal_digit)

text \<open>
  The claim as stated fails as soon as \<^verbatim>\<open>style_text\<close> changes its text: for the same run the
  text written is not the plain summary.
\<close>

theorem testing_end_plain_format_counterexample:
  "written_texts (calls_since DefaultEventFormatter_new
      (testing_end marking_helpers sample_context DefaultEventFormatter_new))
     = [''<1 failed> | <1 skipped> | <3 passed>'']
   \<and> written_texts (calls_since DefaultEventFormatter_new
      (testing_end marking_helpers sample_context DefaultEventFormatter_new))
     \<noteq> [''1 failed | 1 skipped | 3 passed'']"
  by (simp add: testing_end_calls message_part_def marking_helpers_def plain_helpers_def
      sample_context_def decimal_digit)

text \<open>
  Claim C3. \<^verbatim>\<open>testing_end\<close> hands the informal results of the context to
  \<^verbatim>\<open>write_result_informal\<close>, all of them and in order, when the failed-test count is zero,
  and none of them when it is not. The handler only reads the context, so its buffer of
  informal results is the same before and after.
\<close>

theorem testing_end_informal:
  "informal_written (calls_since self (testing_end H ctx self)) =
     (if failed_test_count ctx = 0 then informal_results ctx else [])"
  by (simp add: testing_end_calls informal_written_append informal_written_helpers)

theorem testing_end_informal_witness:
  "informal_written (calls_since DefaultEventFormatter_new
      (testing_end plain_helpers
         (sample_context\<lparr>informal_results := [sample_informal], failed_test_count := 0\<rparr>)
         DefaultEventFormatter_new))
     = [sample_informal]
   \<and> informal_written (calls_since DefaultEventFormatter_new
      (testing_end plain_helpers (sample_context\<lparr>informal_results := [sample_informal]\<rparr>)
         DefaultEventFormatter_new))
     = []"
  using testing_end_informal [of DefaultEventFormatter_new plain_helpers
      "sample_context\<lparr>informal_results := [sample_informal], failed_test_count := 0\<rparr>"]
    testing_end_informal [of DefaultEventFormatter_new plain_helpers
      "sample_context\<lparr>informal_results := [sample_informal]\<rparr>"]
  by (simp add: sample_context_def)

text \<open>The rendering invariant holds after every event.\<close>

lemma render_inv_to_writer: "render_inv (to_writer c self) = render_inv self"
  by (simp add: render_inv_def to_writer_def)

lemma render_inv_foldl_to_writer:
  "render_inv (foldl (\<lambda>s x. to_writer (f x) s) self xs) = render_inv self"
  by (induction xs arbitrary: self) (simp_all add: render_inv_to_writer)

lemma testing_end_inv: "render_inv (testing_end H ctx self) = render_inv self"
  by (simp add: testing_end_def Let_def render_inv_to_writer render_inv_foldl_to_writer)

lemma render_parent_inv:
  "render_inv (snd st) \<Longrightarrow> render_inv (snd (render_parent H st p))"
  by (cases st) (auto simp: render_parent_def render_inv_def)

lemma render_parent_rendered:
  "rendered_entries (snd (render_parent H st p)) = insert p (rendered_entries (snd st))"
  by (cases st) (auto simp: render_parent_def)

lemma render_parents_inv:
  "render_inv (snd st) \<Longrightarrow> render_inv (snd (foldl (render_parent H) st ps))"
  by (induction ps arbitrary: st) (simp_all add: render_parent_inv)

lemma render_parents_rendered:
  "rendered_entries (snd (foldl (render_parent H) st ps)) = rendered_entries (snd st) \<union> set ps"
  by (induction ps arbitrary: st) (simp_all add: render_parent_rendered)

lemma maybe_render_inv:
  assumes "render_inv self" and "entry' \<notin> set (iter_parents H entry')"
  shows "render_inv (snd (maybe_render_test_file_into H into entry' name self))"
proof (cases "entry' \<in> rendered_entries self")
  case True
  then show ?thesis using assms(1) by (simp add: maybe_render_test_file_into_def)
next
  case False
  obtain into1 self1 where loop:
    "foldl (render_parent H) (into, self) (iter_parents H entry') = (into1, self1)"
    by (cases "foldl (render_parent H) (into, self) (iter_parents H entry')")
  have "render_inv (snd (foldl (render_parent H) (into, self) (iter_parents H entry')))"
    using assms(1) by (simp add: render_parents_inv)
  then have inv1: "render_inv self1" by (simp add: loop)
  have "rendered_entries (snd (foldl (render_parent H) (into, self) (iter_parents H entry')))
          = rendered_entries self \<union> set (iter_parents H entry')"
    by (simp add: render_parents_rendered)
  then have "rendered_entries self1 = rendered_entries self \<union> set (iter_parents H entry')"
    by (simp add: loop)
  then have fresh: "entry' \<notin> rendered_entries self1"
    using False assms(2) by simp
  show ?thesis
    using False inv1 fresh by (simp add: maybe_render_test_file_into_def loop render_inv_def)
qed

lemma handle_inv:
  assumes "render_inv self" and "\<forall>e. e \<notin> set (iter_parents H e)"
  shows "render_inv (handle H self ev)"
proof (cases ev)
  case (FileRegistrationDoneEvent ctx)
  then show ?thesis
    using assms(1) by (simp add: file_registration_done_def render_inv_to_writer)
next
  case (FileLoadDoneEvent f)
  have "render_inv (snd (maybe_render_test_file_into H [] (entry f)
          (Some (style_text H (get_name H (entry f)) COLOR_FAIL)) self))"
    using assms by (simp add: maybe_render_inv)
  then show ?thesis
    using FileLoadDoneEvent assms(1)
    by (auto simp: file_load_done_def render_inv_to_writer split: prod.splits)
next
  case (TestDoneEvent result)
  show ?thesis
  proof (cases "case_test_file result")
    case None
    then show ?thesis using TestDoneEvent assms(1) by (simp add: test_done_def)
  next
    case (Some test_file)
    have "render_inv (snd (maybe_render_test_file_into H [] (entry test_file) None self))"
      using assms by (simp add: maybe_render_inv)
    then show ?thesis
      using TestDoneEvent Some
      by (auto simp: test_done_def Let_def render_inv_to_writer split: prod.splits)
  qed
next
  case (FileTestingDoneEvent f)
  have "render_inv (snd (maybe_render_test_file_into H [] (entry f) None self))"
    using assms by (simp add: maybe_render_inv)
  then show ?thesis
    using FileTestingDoneEvent
    by (auto simp: file_testing_done_def render_inv_to_writer split: prod.splits)
next
  case (TestingEndEvent ctx)
  then show ?thesis
    using assms(1) by (simp add: testing_end_inv)
qed

lemma events_inv:
  assumes "\<forall>e. e \<notin> set (iter_parents H e)"
  shows "render_inv self \<Longrightarrow> render_inv (foldl (handle H) self events)"
  using assms by (induction events arbitrary: self) (simp_all add: handle_inv)

lemma sample_render_calls:
  "render_into_calls (after_events plain_helpers sample_events) = [0, 1, 2]"
  by (simp add: after_events_def sample_events_def DefaultEventFormatter_new_def
      file_registration_done_def file_load_done_def test_done_def file_testing_done_def
      testing_end_def Let_def to_writer_def maybe_render_test_file_into_def render_parent_def
      plain_helpers_def sample_result_def sample_context_def keyword_and_foreground_def)

text \<open>
  Claim C9. In a file tree, where no entry is among its own parents, a formatter never
  calls \<^verbatim>\<open>render_into\<close> twice for the same entry, whatever events it receives after its
  creation.
\<close>

theorem render_into_at_most_once:
  assumes "\<forall>e. e \<notin> set (iter_parents H e)"
  shows "distinct (render_into_calls (after_events H events))"
proof -
  have "render_inv (after_events H events)"
    unfolding after_events_def
    by (rule events_inv [OF assms]) (simp add: render_inv_def DefaultEventFormatter_new_def)
  then show ?thesis by (simp add: render_inv_def)
qed

theorem render_into_at_most_once_witness:
  "(\<forall>e. e \<notin> set (iter_parents plain_helpers e))
   \<and> distinct (render_into_calls (after_events plain_helpers sample_events))
   \<and> render_into_calls (after_events plain_helpers sample_events) = [0, 1, 2]"
proof -
  have tree: "\<forall>e. e \<notin> set (iter_parents plain_helpers e)"
    by (auto simp: plain_helpers_def)
  from render_into_at_most_once [OF tree, of sample_events] tree sample_render_calls
  show ?thesis by simp
qed

section \<open>Properties of the conditions\<close>







text \<open>
  Claim C4. When the reference operand is not a type, the subtype assertion ends in a
  \<^verbatim>\<open>TypeError\<close> that propagates to the caller, whatever the checked operand is: there is no
  condition in state FAILED and no captured error. So the unit
  \<^verbatim>\<open>test_assert_subtype_incorrect_type\<close>, which expects the error, passes.
\<close>

theorem subtype_reference_not_type_raises:
  "((\<forall>t. reference \<noteq> PyType t) \<longrightarrow> assert_subtype checked reference = Inl TypeError)
   \<and> test_assert_subtype_incorrect_type = UNIT_PASSED"
  by (cases "(checked, reference)" rule: subtype_predicate.cases)
    (simp_all add: assert_subtype_def assertion_call_def test_assert_subtype_incorrect_type_def)

theorem subtype_reference_not_type_raises_witness:
  "(\<forall>t. PyInt 1 \<noteq> PyType t)
   \<and> assert_subtype (PyType T_bool) (PyInt 1) = Inl TypeError
   \<and> test_assert_subtype_incorrect_type = UNIT_PASSED"
  using subtype_reference_not_type_raises [of "PyInt 1" "PyType T_bool"]
  by simp

text \<open>
  Claim C5. \<^verbatim>\<open>subtype(bool, int)\<close> is satisfied and a unit made of it passes;
  \<^verbatim>\<open>subtype(bool, str)\<close> is not satisfied and a unit made of it fails; \<^verbatim>\<open>subtype(1, int)\<close> is
  not satisfied either: it ends in an ordinary condition in state FAILED with no captured
  error, not in a usage error, and a unit made of it fails. The three units of the test
  file that hold these assertions pass, two of them under \<^verbatim>\<open>revert\<close>.
\<close>

theorem subtype_examples:
  "assert_subtype (PyType T_bool) (PyType T_int)
     = Inr (\<lparr>state = SUCCEEDED, exception = None\<rparr>, True)
   \<and> classify None (body_of (assert_subtype (PyType T_bool) (PyType T_int))) = UNIT_PASSED
   \<and> assert_subtype (PyType T_bool) (PyType T_str)
     = Inr (\<lparr>state = FAILED, exception = None\<rparr>, False)
   \<and> classify None (body_of (assert_subtype (PyType T_bool) (PyType T_str))) = UNIT_FAILED
   \<and> assert_subtype (PyInt 1) (PyType T_int)
     = Inr (\<lparr>state = FAILED, exception = None\<rparr>, False)
   \<and> classify None (body_of (assert_subtype (PyInt 1) (PyType T_int))) = UNIT_FAILED
   \<and> test_assert_subtype = UNIT_PASSED
   \<and> test_assert_subtype_reverted = UNIT_PASSED
   \<and> test_assert_subtype_incorrect_checked = UNIT_PASSED"
  by (simp add: assert_subtype_def assertion_call_def issubclass_def
      AssertionConditionalBase_new_def AssertionBase_new_def test_assert_subtype_def
      test_assert_subtype_reverted_def test_assert_subtype_incorrect_checked_def)

text \<open>
  Claim C6. The identity assertion is satisfied exactly when its two operands are the same
  object; two operands that are equal without being the same object do not satisfy it.
\<close>

theorem identical_iff_same_object:
  "invoke_condition self = (value_1 self = value_2 self)
   \<and> (equal_values h (value_1 self) (value_2 self) \<and> value_1 self \<noteq> value_2 self
        \<longrightarrow> \<not> invoke_condition self)"
  by (simp add: invoke_condition_def same_object_def)

theorem identical_iff_same_object_witness:
  "equal_values two_equal_objects (value_1 (sample_identical 0 1)) (value_2 (sample_identical 0 1))
   \<and> value_1 (sample_identical 0 1) \<noteq> value_2 (sample_identical 0 1)
   \<and> \<not> invoke_condition (sample_identical 0 1)
   \<and> invoke_condition (sample_identical 0 0)"
  using identical_iff_same_object [of "sample_identical 0 1" two_equal_objects]
    identical_iff_same_object [of "sample_identical 0 0" two_equal_objects]
  by (simp add: sample_identical_def two_equal_objects_def equal_values_def)

end
